theory Spec2Isabelle
  imports Main "HOL-Library.Word"
begin

unbundle bit_operations_syntax

section \<open>New thread creation for ARCv2 (arch/arc/core/thread.c)\<close>

text \<open>
  The unit has two functions: \<open>_new_thread\<close>, which lays out a stack object and writes
  the initial stack frame of a new thread, and \<open>_arch_user_mode_enter\<close>, which moves
  the running thread to user mode. ARCv2 is a 32-bit machine: pointers, \<open>size_t\<close>,
  \<open>unsigned int\<close> and \<open>u32_t\<close> are all 32-bit words, and pointer arithmetic wraps.
  Isabelle names cannot start with an underscore, so the leading underscores of the C
  names are dropped.
\<close>

type_synonym u32 = "32 word"

subsection \<open>Build configuration\<close>

text \<open>
  The preprocessor switches the file tests, and the constants and addresses it takes
  from headers that are not part of the unit. They are parameters of the model.
  \<^item> \<open>STACK_ALIGN\<close> is the alignment used by \<open>ROUND_UP(stackSize, STACK_ALIGN)\<close> and by
    \<open>STACK_SIZE_ALIGN\<close>;
  \<^item> \<open>STACK_ALIGN_SIZE\<close> is the alignment \<open>STACK_ROUND_DOWN\<close> rounds to;
  \<^item> \<open>K_THREAD_STACK_BUFFER\<close> maps a stack object to its buffer;
  \<^item> \<open>ASSERT_VALID_PRIO\<close> tells whether \<open>_ASSERT_VALID_PRIO(priority, pEntry)\<close> passes
    (constantly true on a build without assertions);
  \<^item> \<open>ARC_V2_STATUS32_E_DEF_IRQ_LEVEL\<close> is the value of
    \<open>_ARC_V2_STATUS32_E(_ARC_V2_DEF_IRQ_LEVEL)\<close>;
  \<^item> the two wrappers are the addresses of \<open>_thread_entry_wrapper\<close> and
    \<open>_user_thread_entry_wrapper\<close>.
\<close>

record config =
  CONFIG_USERSPACE :: bool
  CONFIG_ARC_MPU_VER :: nat
  CONFIG_ARC_HAS_SECURE :: bool
  CONFIG_ARC_STACK_CHECKING :: bool
  CONFIG_THREAD_MONITOR :: bool
  CONFIG_PRIVILEGED_STACK_SIZE :: u32
  STACK_ALIGN :: u32
  STACK_ALIGN_SIZE :: u32
  STACK_GUARD_SIZE :: u32
  K_USER :: u32
  K_THREAD_STACK_BUFFER :: "u32 \<Rightarrow> u32"
  ASSERT_VALID_PRIO :: "int \<Rightarrow> u32 \<Rightarrow> bool"
  thread_entry_wrapper :: u32
  user_thread_entry_wrapper :: u32
  ARC_V2_SEC_STAT :: u32
  ARC_V2_STATUS32_SC :: u32
  ARC_V2_STATUS32_US :: u32
  ARC_V2_STATUS32_E_DEF_IRQ_LEVEL :: u32
  callee_saved_stack_t_SIZEOF :: u32
  CAUSE_COOP :: u32

subsection \<open>Thread control block and memory\<close>

text \<open>
  The fields of \<open>struct k_thread\<close> that the unit reads or writes. \<open>entry\<close> exists with
  \<open>CONFIG_THREAD_MONITOR\<close>, \<open>arch_stack_base\<close> with \<open>CONFIG_ARC_STACK_CHECKING\<close>, the
  privileged-stack fields and \<open>stack_obj\<close> with \<open>CONFIG_USERSPACE\<close>.
\<close>

record k_thread =
  base_user_options :: u32
  base_prio :: int
  stack_obj :: u32
  stack_info_start :: u32
  stack_info_size :: u32
  arch_priv_stack_start :: u32
  arch_priv_stack_size :: u32
  arch_stack_base :: u32
  arch_intlock_key :: u32
  arch_relinquish_cause :: u32
  callee_saved_sp :: u32
  entry :: u32

text \<open>
  Memory as a store of 32-bit cells, keyed by the byte address of the cell. Every access
  of the unit is a \<open>u32_t\<close> field of one \<open>struct init_stack_frame\<close>, so the cells it
  touches are four bytes apart and never overlap.
\<close>

type_synonym mem = "u32 \<Rightarrow> u32"

definition store32 :: "mem \<Rightarrow> u32 \<Rightarrow> u32 \<Rightarrow> mem" where
  "store32 m a v = m(a := v)"

datatype error = Assert_invalid_prio

text \<open>The calls that leave the unit, in the order they are made.\<close>

datatype ext_call =
    Configure_mpu_thread k_thread
  | Arc_userspace_enter u32 u32 u32 u32 u32 u32

subsection \<open>\<open>struct init_stack_frame\<close>\<close>

text \<open>
  Six \<open>u32_t\<close> fields, seven with \<open>CONFIG_ARC_HAS_SECURE\<close>: \<open>pc\<close>, \<open>sec_stat\<close> (secure
  builds only), \<open>status32\<close>, \<open>r3\<close>, \<open>r2\<close>, \<open>r1\<close>, \<open>r0\<close>. The byte offset of each field and
  \<open>sizeof(struct init_stack_frame)\<close>.
\<close>

definition off_pc :: "config \<Rightarrow> u32" where
  "off_pc cfg = 0"

definition off_sec_stat :: "config \<Rightarrow> u32" where
  "off_sec_stat cfg = 4"

definition off_status32 :: "config \<Rightarrow> u32" where
  "off_status32 cfg = (if CONFIG_ARC_HAS_SECURE cfg then 8 else 4)"

definition off_r3 :: "config \<Rightarrow> u32" where
  "off_r3 cfg = off_status32 cfg + 4"

definition off_r2 :: "config \<Rightarrow> u32" where
  "off_r2 cfg = off_status32 cfg + 8"

definition off_r1 :: "config \<Rightarrow> u32" where
  "off_r1 cfg = off_status32 cfg + 12"

definition off_r0 :: "config \<Rightarrow> u32" where
  "off_r0 cfg = off_status32 cfg + 16"

definition sizeof_init_stack_frame :: "config \<Rightarrow> u32" where
  "sizeof_init_stack_frame cfg = off_r0 cfg + 4"

text \<open>The field offsets of the frame in memory order, and the cells of a frame at \<open>p\<close>.\<close>

definition frame_offsets :: "config \<Rightarrow> u32 list" where
  "frame_offsets cfg =
     [off_pc cfg] @ (if CONFIG_ARC_HAS_SECURE cfg then [off_sec_stat cfg] else []) @
     [off_status32 cfg, off_r3 cfg, off_r2 cfg, off_r1 cfg, off_r0 cfg]"

definition frame_addrs :: "config \<Rightarrow> u32 \<Rightarrow> u32 list" where
  "frame_addrs cfg p = map (\<lambda>off. p + off) (frame_offsets cfg)"

definition read_frame :: "config \<Rightarrow> mem \<Rightarrow> u32 \<Rightarrow> u32 list" where
  "read_frame cfg m p = map m (frame_addrs cfg p)"

subsection \<open>Rounding macros\<close>

text \<open>
  Modelled from the spec: \<open>ROUND_DOWN\<close> (behind \<open>STACK_ROUND_DOWN\<close>) is a macro of a
  header that is not part of the unit. The spec: "round the top of the usable region
  down to the architecture's stack alignment". The greatest multiple of \<open>align\<close> that is
  at most \<open>x\<close>.
\<close>

definition ROUND_DOWN :: "u32 \<Rightarrow> u32 \<Rightarrow> u32" where
  "ROUND_DOWN x align = x - x mod align"

definition STACK_ROUND_DOWN :: "config \<Rightarrow> u32 \<Rightarrow> u32" where
  "STACK_ROUND_DOWN cfg x = ROUND_DOWN x (STACK_ALIGN_SIZE cfg)"

text \<open>
  Modelled from the spec: \<open>ROUND_UP\<close> is a macro of a header that is not part of the
  unit. The spec: "fixed-alignment ceiling". \<open>x\<close> is raised by \<open>align - 1\<close> and rounded
  down, in 32-bit arithmetic.
\<close>

definition ROUND_UP :: "u32 \<Rightarrow> u32 \<Rightarrow> u32" where
  "ROUND_UP x align = ROUND_DOWN (x + (align - 1)) align"

text \<open>
  Modelled from the spec: \<open>POW2_CEIL\<close> is a macro of a header that is not part of the
  unit. The spec: "power-of-two ceiling". The first of \<open>2^0, ..., 2^31\<close> that is at
  least \<open>x\<close>; above \<open>2^31\<close> no 32-bit power of two is large enough and the result is
  \<open>2^32\<close> wrapped to 0.
\<close>

definition POW2_CEIL :: "u32 \<Rightarrow> u32" where
  "POW2_CEIL x =
     (case find (\<lambda>p. unat x \<le> p) (map (\<lambda>k. 2 ^ k) [0..<32]) of
        Some p \<Rightarrow> word_of_nat p
      | None \<Rightarrow> 0)"

text \<open>
  Modelled from the spec: \<open>STACK_SIZE_ALIGN\<close> is a macro of a header that is not part of
  the unit. The spec rounds the size "up to the MPU's region-size granularity", and its
  Scenario B takes 1024 to 2048 under power-of-two rounding: the size is raised to at
  least \<open>STACK_ALIGN\<close> before the power-of-two ceiling.
\<close>

definition STACK_SIZE_ALIGN :: "config \<Rightarrow> u32 \<Rightarrow> u32" where
  "STACK_SIZE_ALIGN cfg x = max (STACK_ALIGN cfg) x"

subsection \<open>Collaborators outside the unit\<close>

text \<open>
  Modelled from the spec: \<open>_new_thread_init\<close> is an inline function of a kernel header
  that is not part of the unit. The spec's TCB fields: \<open>stack_info\<close> = \<open>{base address,
  usable size}\<close>, and the options and priority the thread is created with.
\<close>

definition new_thread_init :: "k_thread \<Rightarrow> u32 \<Rightarrow> u32 \<Rightarrow> int \<Rightarrow> u32 \<Rightarrow> k_thread" where
  "new_thread_init thread pStack stackSize prio options =
     thread\<lparr>base_user_options := options, base_prio := prio,
            stack_info_start := pStack, stack_info_size := stackSize\<rparr>"

text \<open>
  Modelled from the spec: \<open>thread_monitor_init\<close> is not part of the unit. The spec:
  "Notify the monitoring collaborator that a new thread exists (informational; no
  effect on correctness)".
\<close>

definition thread_monitor_init :: "k_thread \<Rightarrow> k_thread" where
  "thread_monitor_init thread = thread"

subsection \<open>\<open>_new_thread\<close>\<close>

text \<open>
  Lines 76--82: the rounding of \<open>stackSize\<close>, compiled in with \<open>CONFIG_USERSPACE\<close> and
  chosen by \<open>CONFIG_ARC_MPU_VER\<close>.
\<close>

definition rounded_stackSize :: "config \<Rightarrow> u32 \<Rightarrow> u32" where
  "rounded_stackSize cfg stackSize =
     (if CONFIG_USERSPACE cfg then
        (if CONFIG_ARC_MPU_VER cfg = 2 then POW2_CEIL (STACK_SIZE_ALIGN cfg stackSize)
         else if CONFIG_ARC_MPU_VER cfg = 3 then ROUND_UP stackSize (STACK_ALIGN cfg)
         else stackSize)
      else stackSize)"

text \<open>
  Lines 70--101: the three locals \<open>pStackMem\<close>, \<open>stackSize\<close> and \<open>stackEnd\<close> as they
  stand when \<open>_new_thread_init\<close> is called. For a kernel thread of a userspace build the
  guard is skipped at the bottom and the privileged stack is merged in at the top.
\<close>

record stack_layout =
  pStackMem :: u32
  stackSize :: u32
  stackEnd :: u32

definition new_thread_layout :: "config \<Rightarrow> u32 \<Rightarrow> u32 \<Rightarrow> u32 \<Rightarrow> stack_layout" where
  "new_thread_layout cfg stack size0 options =
     (let pStackMem0 = K_THREAD_STACK_BUFFER cfg stack;
          stackSize0 = rounded_stackSize cfg size0;
          stackEnd0 = pStackMem0 + stackSize0
      in if CONFIG_USERSPACE cfg \<and> options AND K_USER cfg = 0
         then \<lparr>pStackMem = pStackMem0 + STACK_GUARD_SIZE cfg,
               stackSize = stackSize0 + CONFIG_PRIVILEGED_STACK_SIZE cfg,
               stackEnd = stackEnd0 + (CONFIG_PRIVILEGED_STACK_SIZE cfg + STACK_GUARD_SIZE cfg)\<rparr>
         else \<lparr>pStackMem = pStackMem0, stackSize = stackSize0, stackEnd = stackEnd0\<rparr>)"

text \<open>Lines 105--106: the address of the initial stack frame.\<close>

definition new_thread_pInitCtx :: "config \<Rightarrow> u32 \<Rightarrow> u32 \<Rightarrow> u32 \<Rightarrow> u32" where
  "new_thread_pInitCtx cfg stack size0 options =
     STACK_ROUND_DOWN cfg (stackEnd (new_thread_layout cfg stack size0 options))
       - sizeof_init_stack_frame cfg"

text \<open>
  The whole function. \<open>aux\<close> is the auxiliary register file read by
  \<open>_arc_v2_aux_reg_read\<close>. A failed \<open>_ASSERT_VALID_PRIO\<close> stops the kernel before
  anything is written; otherwise the result is the thread structure and the memory
  after the call.
\<close>

definition new_thread ::
  "config \<Rightarrow> (u32 \<Rightarrow> u32) \<Rightarrow> mem \<Rightarrow> k_thread \<Rightarrow> u32 \<Rightarrow> u32 \<Rightarrow> u32 \<Rightarrow> u32 \<Rightarrow> u32 \<Rightarrow> u32 \<Rightarrow>
   int \<Rightarrow> u32 \<Rightarrow> error + (k_thread \<times> mem)" where
  "new_thread cfg aux mem thread stack size0 pEntry parameter1 parameter2 parameter3
       priority options =
     (if \<not> ASSERT_VALID_PRIO cfg priority pEntry then Inl Assert_invalid_prio
      else
        let lay = new_thread_layout cfg stack size0 options;
            thread = new_thread_init thread (pStackMem lay) (stackSize lay) priority options;
            pInitCtx = new_thread_pInitCtx cfg stack size0 options;
            mem = store32 mem (pInitCtx + off_pc cfg)
                    (if CONFIG_USERSPACE cfg \<and> options AND K_USER cfg \<noteq> 0
                     then user_thread_entry_wrapper cfg else thread_entry_wrapper cfg);
            mem = (if CONFIG_ARC_HAS_SECURE cfg
                   then store32 mem (pInitCtx + off_sec_stat cfg) (aux (ARC_V2_SEC_STAT cfg))
                   else mem);
            mem = store32 mem (pInitCtx + off_r0 cfg) pEntry;
            mem = store32 mem (pInitCtx + off_r1 cfg) parameter1;
            mem = store32 mem (pInitCtx + off_r2 cfg) parameter2;
            mem = store32 mem (pInitCtx + off_r3 cfg) parameter3;
            mem = store32 mem (pInitCtx + off_status32 cfg)
                    (if CONFIG_ARC_STACK_CHECKING cfg
                     then ARC_V2_STATUS32_SC cfg OR ARC_V2_STATUS32_E_DEF_IRQ_LEVEL cfg
                     else ARC_V2_STATUS32_E_DEF_IRQ_LEVEL cfg);
            thread = (if CONFIG_ARC_STACK_CHECKING cfg
                      then thread\<lparr>arch_stack_base := stackEnd lay\<rparr> else thread);
            mem = (if CONFIG_USERSPACE cfg
                   then store32 mem (pInitCtx + off_status32 cfg)
                          (mem (pInitCtx + off_status32 cfg) OR ARC_V2_STATUS32_US cfg)
                   else mem);
            thread = (if CONFIG_USERSPACE cfg then
                        (if options AND K_USER cfg \<noteq> 0
                         then thread\<lparr>arch_priv_stack_start := stackEnd lay + STACK_GUARD_SIZE cfg,
                                     arch_priv_stack_size := CONFIG_PRIVILEGED_STACK_SIZE cfg\<rparr>
                         else thread\<lparr>arch_priv_stack_start := 0, arch_priv_stack_size := 0\<rparr>)
                      else thread);
            thread = (if CONFIG_THREAD_MONITOR cfg then thread\<lparr>entry := pInitCtx\<rparr> else thread);
            thread = thread\<lparr>arch_intlock_key := 0x3F\<rparr>;
            thread = thread\<lparr>arch_relinquish_cause := CAUSE_COOP cfg\<rparr>;
            thread = thread\<lparr>callee_saved_sp := pInitCtx - callee_saved_stack_t_SIZEOF cfg\<rparr>
        in Inr (thread_monitor_init thread, mem))"

subsection \<open>\<open>_arch_user_mode_enter\<close>\<close>

text \<open>
  Compiled only with \<open>CONFIG_USERSPACE\<close>. \<open>current\<close> is the global \<open>_current\<close>. The
  function does not return: it ends in \<open>_arc_userspace_enter\<close>. The result is the thread
  structure as the function leaves it and the calls it made.
\<close>

definition arch_user_mode_enter ::
  "config \<Rightarrow> k_thread \<Rightarrow> u32 \<Rightarrow> u32 \<Rightarrow> u32 \<Rightarrow> u32 \<Rightarrow> k_thread \<times> ext_call list" where
  "arch_user_mode_enter cfg current user_entry p1 p2 p3 =
     (let current = current\<lparr>base_user_options := base_user_options current OR K_USER cfg\<rparr>;
          current = current\<lparr>stack_info_start := stack_obj current\<rparr>;
          current = current\<lparr>stack_info_size :=
                      stack_info_size current - CONFIG_PRIVILEGED_STACK_SIZE cfg\<rparr>;
          current = current\<lparr>arch_priv_stack_start :=
                      stack_info_start current + stack_info_size current + STACK_GUARD_SIZE cfg\<rparr>;
          current = current\<lparr>arch_priv_stack_size := CONFIG_PRIVILEGED_STACK_SIZE cfg\<rparr>
      in (current,
          [Configure_mpu_thread current,
           Arc_userspace_enter user_entry p1 p2 p3 (stack_obj current) (stack_info_size current)]))"

subsection \<open>Sequences of operations on one thread structure\<close>

text \<open>
  The unit has two operations that write a thread structure: \<open>_arch_user_mode_enter\<close>,
  on the running thread, and \<open>_new_thread\<close>, which initialises whatever structure it is
  handed, also one that has been in use. An operation with its arguments, and a list of
  them run in order on a thread structure and the memory; a failed priority assertion
  stops the run.
\<close>

datatype thread_op =
    Op_user_mode_enter u32 u32 u32 u32
  | Op_new_thread u32 u32 u32 u32 u32 u32 int u32

fun run_ops ::
  "config \<Rightarrow> (u32 \<Rightarrow> u32) \<Rightarrow> thread_op list \<Rightarrow> k_thread \<times> mem \<Rightarrow> error + (k_thread \<times> mem)"
  where
  "run_ops cfg aux [] s = Inr s"
| "run_ops cfg aux (Op_user_mode_enter user_entry p1 p2 p3 # ops) (t, m) =
     run_ops cfg aux ops (fst (arch_user_mode_enter cfg t user_entry p1 p2 p3), m)"
| "run_ops cfg aux (Op_new_thread stack size0 pEntry p1 p2 p3 priority options # ops) (t, m) =
     (case new_thread cfg aux m t stack size0 pEntry p1 p2 p3 priority options of
        Inl e \<Rightarrow> Inl e
      | Inr s' \<Rightarrow> run_ops cfg aux ops s')"

text \<open>
  An operation that leaves a user thread a user thread: every \<open>_arch_user_mode_enter\<close>,
  and a \<open>_new_thread\<close> whose priority assertion passes and whose options have \<open>K_USER\<close>.
\<close>

fun op_keeps_user :: "config \<Rightarrow> thread_op \<Rightarrow> bool" where
  "op_keeps_user cfg (Op_user_mode_enter user_entry p1 p2 p3) = True"
| "op_keeps_user cfg (Op_new_thread stack size0 pEntry p1 p2 p3 priority options) =
     (ASSERT_VALID_PRIO cfg priority pEntry \<and> options AND K_USER cfg = K_USER cfg)"

subsection \<open>Concrete builds and inputs\<close>

text \<open>
  A userspace build on the older MPU (version 2, regions of 2048 bytes) with the numbers
  of the spec's Scenario B: privileged stack 256, guard 32.
\<close>

definition cfg_mpu2 :: config where
  "cfg_mpu2 =
     \<lparr>CONFIG_USERSPACE = True, CONFIG_ARC_MPU_VER = 2, CONFIG_ARC_HAS_SECURE = False,
      CONFIG_ARC_STACK_CHECKING = False, CONFIG_THREAD_MONITOR = False,
      CONFIG_PRIVILEGED_STACK_SIZE = 256, STACK_ALIGN = 2048, STACK_ALIGN_SIZE = 4,
      STACK_GUARD_SIZE = 32, K_USER = 4, K_THREAD_STACK_BUFFER = (\<lambda>sym. sym),
      ASSERT_VALID_PRIO = (\<lambda>prio pEntry. True),
      thread_entry_wrapper = 0x100, user_thread_entry_wrapper = 0x200,
      ARC_V2_SEC_STAT = 0x9, ARC_V2_STATUS32_SC = 0x4000, ARC_V2_STATUS32_US = 0x100000,
      ARC_V2_STATUS32_E_DEF_IRQ_LEVEL = 0x1E, callee_saved_stack_t_SIZEOF = 64,
      CAUSE_COOP = 1\<rparr>"

text \<open>The same on the newer MPU (version 3, alignment 32), secure with stack checking.\<close>

definition cfg_mpu3 :: config where
  "cfg_mpu3 = cfg_mpu2\<lparr>CONFIG_ARC_MPU_VER := 3, STACK_ALIGN := 32,
     CONFIG_ARC_HAS_SECURE := True, CONFIG_ARC_STACK_CHECKING := True,
     CONFIG_THREAD_MONITOR := True\<rparr>"

text \<open>A build without userspace: no MPU, alignment 4, no guard.\<close>

definition cfg_plain :: config where
  "cfg_plain = cfg_mpu2\<lparr>CONFIG_USERSPACE := False, CONFIG_ARC_MPU_VER := 0, STACK_ALIGN := 4,
     STACK_GUARD_SIZE := 0\<rparr>"

definition thread0 :: k_thread where
  "thread0 =
     \<lparr>base_user_options = 0, base_prio = 0, stack_obj = 0, stack_info_start = 0,
      stack_info_size = 0, arch_priv_stack_start = 0, arch_priv_stack_size = 0,
      arch_stack_base = 0, arch_intlock_key = 0, arch_relinquish_cause = 0,
      callee_saved_sp = 0, entry = 0\<rparr>"

text \<open>
  A kernel thread of the build \<open>cfg_mpu2\<close> as \<open>_new_thread\<close> lays it out on the stack
  object at \<open>0x10000\<close> with a requested size of 1024: the guard of 32 bytes below, then
  2048 + 256 bytes of stack.
\<close>

definition thread_k :: k_thread where
  "thread_k =
     thread0\<lparr>stack_obj := 0x10000, stack_info_start := 0x10020, stack_info_size := 2304\<rparr>"

definition mem0 :: mem where
  "mem0 = (\<lambda>a. 0)"

definition aux0 :: "u32 \<Rightarrow> u32" where
  "aux0 = (\<lambda>r. if r = 0x9 then 0x55 else 0)"

section \<open>Properties\<close>

subsection \<open>Evaluation at the concrete builds\<close>

lemmas off_defs = off_pc_def off_sec_stat_def off_status32_def off_r3_def off_r2_def off_r1_def
  off_r0_def sizeof_init_stack_frame_def

lemma POW2_CEIL_2048: "POW2_CEIL 2048 = 2048"
  by (simp add: POW2_CEIL_def upt_conv_Cons)

lemma rounded_mpu2_1024: "rounded_stackSize cfg_mpu2 1024 = 2048"
  by (simp add: rounded_stackSize_def cfg_mpu2_def STACK_SIZE_ALIGN_def POW2_CEIL_2048)

lemma layout_mpu2_user:
  "new_thread_layout cfg_mpu2 0x10000 1024 4 =
     \<lparr>pStackMem = 0x10000, stackSize = 2048, stackEnd = 0x10800\<rparr>"
  by (simp add: new_thread_layout_def rounded_mpu2_1024 Let_def) (simp add: cfg_mpu2_def)

lemma pInitCtx_mpu2_user: "new_thread_pInitCtx cfg_mpu2 0x10000 1024 4 = 0x107E8"
  by (simp add: new_thread_pInitCtx_def layout_mpu2_user STACK_ROUND_DOWN_def ROUND_DOWN_def
        off_defs)
     (simp add: cfg_mpu2_def)

lemma assert_mpu2: "ASSERT_VALID_PRIO cfg_mpu2 prio pEntry"
  by (simp add: cfg_mpu2_def)

lemma offsets_mpu2:
  "off_pc cfg_mpu2 = 0" "off_status32 cfg_mpu2 = 4" "off_r3 cfg_mpu2 = 8"
  "off_r2 cfg_mpu2 = 12" "off_r1 cfg_mpu2 = 16" "off_r0 cfg_mpu2 = 20"
  "sizeof_init_stack_frame cfg_mpu2 = 24"
  by (simp_all add: off_defs cfg_mpu2_def)

lemma layout_mpu2_kernel:
  "new_thread_layout cfg_mpu2 0x10000 1024 0 =
     \<lparr>pStackMem = 0x10020, stackSize = 2304, stackEnd = 0x10920\<rparr>"
  by (simp add: new_thread_layout_def rounded_mpu2_1024 Let_def) (simp add: cfg_mpu2_def)

lemma pInitCtx_mpu2_kernel: "new_thread_pInitCtx cfg_mpu2 0x10000 1024 0 = 0x10908"
  by (simp add: new_thread_pInitCtx_def layout_mpu2_kernel STACK_ROUND_DOWN_def ROUND_DOWN_def
        off_defs)
     (simp add: cfg_mpu2_def)

lemma layout_plain_0:
  "new_thread_layout cfg_plain 0x10000 0 0 =
     \<lparr>pStackMem = 0x10000, stackSize = 0, stackEnd = 0x10000\<rparr>"
  by (simp add: new_thread_layout_def rounded_stackSize_def Let_def cfg_plain_def cfg_mpu2_def)

lemma sizeof_plain: "sizeof_init_stack_frame cfg_plain = 24"
  by (simp add: off_defs cfg_plain_def cfg_mpu2_def)

subsection \<open>Word arithmetic\<close>

lemma unat_add3:
  fixes x y z :: u32
  assumes "unat x + unat y + unat z < 2 ^ 32"
  shows "unat (x + y + z) = unat x + unat y + unat z"
proof -
  have "unat x + unat y < 2 ^ 32" using assms by simp
  then have xy: "unat (x + y) = unat x + unat y"
    using unat_add_lem [of x y] by simp
  then have "unat (x + y) + unat z < 2 ^ 32" using assms by simp
  then have "unat (x + y + z) = unat (x + y) + unat z"
    using unat_add_lem [of "x + y" z] by simp
  with xy show ?thesis by simp
qed

lemma unat_pow2:
  assumes "k < 32"
  shows "unat ((2::u32) ^ k) = 2 ^ k"
proof -
  have lt: "(2::nat) ^ k < 2 ^ 32"
    using assms by (rule power_strict_increasing) simp
  show ?thesis
    using unat_of_nat [where 'a = 32, of "2 ^ k"] lt by simp
qed

lemma pow2_dvd_32: "k < 32 \<Longrightarrow> (2::nat) ^ k dvd 2 ^ 32"
  using le_imp_power_dvd [of k 32 "2::nat"] by simp

lemma word_mod_le_self: "(x::u32) mod a \<le> x"
  by (simp add: word_le_nat_alt unat_mod)

lemma dvd_unat_diff:
  fixes r s :: u32
  assumes "d dvd (2::nat) ^ 32" and "d dvd unat r" and "d dvd unat s"
  shows "d dvd unat (r - s)"
proof (cases "unat s \<le> unat r")
  case True
  then show ?thesis using assms by (simp add: unat_sub_if_size)
next
  case False
  then have "unat (r - s) = unat r + 2 ^ 32 - unat s"
    by (simp add: unat_sub_if_size word_size)
  moreover have "d dvd unat r + 2 ^ 32 - unat s"
    using assms by simp
  ultimately show ?thesis by simp
qed

subsection \<open>Rounding down\<close>

lemma unat_ROUND_DOWN: "unat (ROUND_DOWN x a) = unat x - unat x mod unat a"
  by (simp add: ROUND_DOWN_def unat_sub word_mod_le_self unat_mod)

lemma ROUND_DOWN_aligned: "unat (ROUND_DOWN x a) mod unat a = 0"
  by (simp add: unat_ROUND_DOWN minus_mod_eq_mult_div)

subsection \<open>The frame and the thread structure after \<open>_new_thread\<close>\<close>

lemma sizeof_frame:
  "sizeof_init_stack_frame cfg = (if CONFIG_ARC_HAS_SECURE cfg then 28 else 24)"
  by (simp add: off_defs)

lemma frame_addrs_length: "4 * length (frame_addrs cfg p) = unat (sizeof_init_stack_frame cfg)"
  by (simp add: frame_addrs_def frame_offsets_def off_defs)

lemma new_thread_mem_outside:
  assumes "new_thread cfg aux mem thread stack size0 pEntry a b c priority options
             = Inr (t', m')"
      and "x \<notin> set (frame_addrs cfg (new_thread_pInitCtx cfg stack size0 options))"
  shows "m' x = mem x"
  using assms
  by (auto simp: new_thread_def Let_def store32_def frame_addrs_def frame_offsets_def
           split: if_splits)

lemma pInitCtx_aligned:
  assumes "STACK_ALIGN_SIZE cfg = 2 ^ k" and "k < 32"
      and "2 ^ k dvd unat (sizeof_init_stack_frame cfg)"
  shows "unat (new_thread_pInitCtx cfg stack size0 options) mod 2 ^ k = 0"
proof -
  let ?e = "stackEnd (new_thread_layout cfg stack size0 options)"
  have "unat (ROUND_DOWN ?e (2 ^ k)) mod unat ((2::u32) ^ k) = 0"
    by (rule ROUND_DOWN_aligned)
  then have "2 ^ k dvd unat (ROUND_DOWN ?e (2 ^ k))"
    using assms(2) by (simp add: mod_eq_0_iff_dvd unat_pow2)
  then have "2 ^ k dvd unat (ROUND_DOWN ?e (2 ^ k) - sizeof_init_stack_frame cfg)"
    using assms(2,3) by (intro dvd_unat_diff pow2_dvd_32)
  then show ?thesis
    using assms(1) by (simp add: new_thread_pInitCtx_def STACK_ROUND_DOWN_def mod_eq_0_iff_dvd)
qed

lemma new_thread_tcb:
  assumes "ASSERT_VALID_PRIO cfg priority pEntry"
  shows "\<exists>t' m'.
           new_thread cfg aux mem thread stack size0 pEntry a b c priority options
             = Inr (t', m') \<and>
           stack_info_start t' = pStackMem (new_thread_layout cfg stack size0 options) \<and>
           stack_info_size t' = stackSize (new_thread_layout cfg stack size0 options) \<and>
           stackEnd (new_thread_layout cfg stack size0 options)
             = stack_info_start t' + stack_info_size t' \<and>
           callee_saved_sp t'
             = new_thread_pInitCtx cfg stack size0 options - callee_saved_stack_t_SIZEOF cfg"
  using assms
  by (simp add: new_thread_def Let_def new_thread_layout_def new_thread_init_def
        thread_monitor_init_def)

subsection \<open>The argument slots of the frame\<close>

text \<open>
  C1. Whenever the priority assertion passes, \<open>_new_thread\<close> returns, and in the memory
  it leaves the four argument slots of the frame at \<open>pInitCtx\<close> hold the entry point and
  the three parameters in the fixed order: \<open>r0\<close> the entry point, \<open>r1\<close>, \<open>r2\<close>, \<open>r3\<close> the
  first, second and third parameter.
\<close>

theorem new_thread_argument_slots:
  assumes "ASSERT_VALID_PRIO cfg priority pEntry"
  shows "\<exists>t' m'.
           new_thread cfg aux mem thread stack size0 pEntry a b c priority options
             = Inr (t', m') \<and>
           m' (new_thread_pInitCtx cfg stack size0 options + off_r0 cfg) = pEntry \<and>
           m' (new_thread_pInitCtx cfg stack size0 options + off_r1 cfg) = a \<and>
           m' (new_thread_pInitCtx cfg stack size0 options + off_r2 cfg) = b \<and>
           m' (new_thread_pInitCtx cfg stack size0 options + off_r3 cfg) = c"
  using assms by (simp add: new_thread_def Let_def store32_def off_defs)

theorem new_thread_argument_slots_witness:
  "ASSERT_VALID_PRIO cfg_mpu2 0 0x400 \<and>
   (\<exists>t' m'. new_thread cfg_mpu2 aux0 mem0 thread0 0x10000 1024 0x400 1 2 3 0 4 = Inr (t', m') \<and>
      m' 0x107FC = 0x400 \<and> m' 0x107F8 = 1 \<and> m' 0x107F4 = 2 \<and> m' 0x107F0 = 3)"
proof -
  have h: "ASSERT_VALID_PRIO cfg_mpu2 0 0x400" by (rule assert_mpu2)
  show ?thesis
    using h new_thread_argument_slots [OF h, of aux0 mem0 thread0 "0x10000" 1024 1 2 3 4]
    by (simp add: pInitCtx_mpu2_user offsets_mpu2)
qed

subsection \<open>The entry wrapper\<close>

text \<open>
  C6. Whenever the priority assertion passes, the \<open>pc\<close> slot of the frame holds the
  user-mode entry wrapper if the build has \<open>CONFIG_USERSPACE\<close> and \<open>K_USER\<close> is set in
  the options, and the kernel-mode entry wrapper in every other case.
\<close>

theorem new_thread_entry_wrapper:
  assumes "ASSERT_VALID_PRIO cfg priority pEntry"
  shows "\<exists>t' m'.
           new_thread cfg aux mem thread stack size0 pEntry a b c priority options
             = Inr (t', m') \<and>
           m' (new_thread_pInitCtx cfg stack size0 options + off_pc cfg) =
             (if CONFIG_USERSPACE cfg \<and> options AND K_USER cfg \<noteq> 0
              then user_thread_entry_wrapper cfg else thread_entry_wrapper cfg)"
  using assms by (simp add: new_thread_def Let_def store32_def off_defs)

theorem new_thread_entry_wrapper_witness:
  "ASSERT_VALID_PRIO cfg_mpu2 0 0x400 \<and>
   (\<exists>t' m'. new_thread cfg_mpu2 aux0 mem0 thread0 0x10000 1024 0x400 1 2 3 0 4 = Inr (t', m') \<and>
      m' 0x107E8 = 0x200) \<and>
   (\<exists>t' m'. new_thread cfg_mpu2 aux0 mem0 thread0 0x10000 1024 0x400 1 2 3 0 0 = Inr (t', m') \<and>
      m' 0x10908 = 0x100)"
proof -
  have h: "ASSERT_VALID_PRIO cfg_mpu2 0 0x400" by (rule assert_mpu2)
  have w: "user_thread_entry_wrapper cfg_mpu2 = 0x200" "thread_entry_wrapper cfg_mpu2 = 0x100"
    "CONFIG_USERSPACE cfg_mpu2" "K_USER cfg_mpu2 = 4"
    by (simp_all add: cfg_mpu2_def)
  show ?thesis
    using h new_thread_entry_wrapper [OF h, of aux0 mem0 thread0 "0x10000" 1024 1 2 3 4]
      new_thread_entry_wrapper [OF h, of aux0 mem0 thread0 "0x10000" 1024 1 2 3 0]
    by (simp add: pInitCtx_mpu2_user pInitCtx_mpu2_kernel offsets_mpu2 w)
qed

subsection \<open>The status word\<close>

text \<open>
  C10. On a build with \<open>CONFIG_USERSPACE\<close>, whenever the priority assertion passes the
  \<open>status32\<close> slot of the frame is the default word (the interrupt-priority field, with
  the stack-checking bit on a build that has it) with the US bit or-ed in. This holds
  for every value of the options, so for kernel threads as for user threads.
\<close>

theorem new_thread_status32_US:
  assumes "ASSERT_VALID_PRIO cfg priority pEntry" and "CONFIG_USERSPACE cfg"
  shows "\<exists>t' m'.
           new_thread cfg aux mem thread stack size0 pEntry a b c priority options
             = Inr (t', m') \<and>
           m' (new_thread_pInitCtx cfg stack size0 options + off_status32 cfg) =
             (if CONFIG_ARC_STACK_CHECKING cfg
              then ARC_V2_STATUS32_SC cfg OR ARC_V2_STATUS32_E_DEF_IRQ_LEVEL cfg
              else ARC_V2_STATUS32_E_DEF_IRQ_LEVEL cfg) OR ARC_V2_STATUS32_US cfg \<and>
           m' (new_thread_pInitCtx cfg stack size0 options + off_status32 cfg)
             AND ARC_V2_STATUS32_US cfg = ARC_V2_STATUS32_US cfg"
  using assms by (simp add: new_thread_def Let_def store32_def off_defs word_ao_absorbs)

theorem new_thread_status32_US_witness:
  "ASSERT_VALID_PRIO cfg_mpu2 0 0x400 \<and> CONFIG_USERSPACE cfg_mpu2 \<and>
   (\<exists>t' m'. new_thread cfg_mpu2 aux0 mem0 thread0 0x10000 1024 0x400 1 2 3 0 0 = Inr (t', m') \<and>
      m' 0x1090C = 0x10001E \<and> m' 0x1090C AND 0x100000 = 0x100000)"
proof -
  have h: "ASSERT_VALID_PRIO cfg_mpu2 0 0x400" by (rule assert_mpu2)
  have u: "CONFIG_USERSPACE cfg_mpu2" by (simp add: cfg_mpu2_def)
  have w: "ARC_V2_STATUS32_US cfg_mpu2 = 0x100000"
    "ARC_V2_STATUS32_E_DEF_IRQ_LEVEL cfg_mpu2 = 0x1E" "\<not> CONFIG_ARC_STACK_CHECKING cfg_mpu2"
    by (simp_all add: cfg_mpu2_def)
  show ?thesis
    using h u new_thread_status32_US [OF h u, of aux0 mem0 thread0 "0x10000" 1024 1 2 3 0]
    by (simp add: pInitCtx_mpu2_kernel offsets_mpu2 w)
qed

subsection \<open>Failures of \<open>_new_thread\<close>\<close>

text \<open>
  C3, as the code has it. \<open>_new_thread\<close> returns \<open>void\<close> and never looks at the size it
  is given: it stops exactly when the priority assertion fails, whatever the requested
  stack size, the options and the build. A size too small for the frame is not detected.
\<close>

theorem new_thread_fails_only_on_priority:
  "isl (new_thread cfg aux mem thread stack size0 pEntry a b c priority options)
     = (\<not> ASSERT_VALID_PRIO cfg priority pEntry)"
  by (simp add: new_thread_def Let_def)

theorem new_thread_fails_only_on_priority_witness:
  "isl (new_thread cfg_plain aux0 mem0 thread0 0x10000 0 0x400 1 2 3 0 0) = False"
  using new_thread_fails_only_on_priority
          [of cfg_plain aux0 mem0 thread0 "0x10000" 0 "0x400" 1 2 3 0 0]
  by (simp add: cfg_plain_def cfg_mpu2_def)

text \<open>
  C3 as stated fails: on the build without userspace a requested size of 0 stays 0, less
  than the 24 bytes of the frame, and \<open>_new_thread\<close> reports nothing.
\<close>

theorem new_thread_no_size_check_counterexample:
  "unat (stackSize (new_thread_layout cfg_plain 0x10000 0 0))
     < unat (sizeof_init_stack_frame cfg_plain) \<and>
   \<not> isl (new_thread cfg_plain aux0 mem0 thread0 0x10000 0 0x400 1 2 3 0 0)"
  by (simp add: layout_plain_0 sizeof_plain new_thread_def Let_def)
     (simp add: cfg_plain_def cfg_mpu2_def)

subsection \<open>The regions of a user thread\<close>

text \<open>
  C2, as the code has it. For a user thread of a userspace build the region recorded in
  \<open>stack_info\<close> starts at the buffer and has the whole rounded size; the guard lies
  directly above it and the privileged stack, of the configured size, directly above the
  guard. When the addresses do not wrap, the privileged stack starts exactly guard-size
  bytes after the end of the user region, so neither the guard nor the privileged stack
  is part of the user region, and the three regions take the rounded size plus the guard
  plus the privileged-stack size from the buffer base.
\<close>

theorem new_thread_user_regions:
  assumes "ASSERT_VALID_PRIO cfg priority pEntry"
      and "CONFIG_USERSPACE cfg" and "options AND K_USER cfg \<noteq> 0"
  shows "\<exists>t' m'.
           new_thread cfg aux mem thread stack size0 pEntry a b c priority options
             = Inr (t', m') \<and>
           stack_info_start t' = K_THREAD_STACK_BUFFER cfg stack \<and>
           stack_info_size t' = rounded_stackSize cfg size0 \<and>
           arch_priv_stack_start t' =
             stack_info_start t' + stack_info_size t' + STACK_GUARD_SIZE cfg \<and>
           arch_priv_stack_size t' = CONFIG_PRIVILEGED_STACK_SIZE cfg \<and>
           (unat (K_THREAD_STACK_BUFFER cfg stack) + unat (rounded_stackSize cfg size0)
              + unat (STACK_GUARD_SIZE cfg) < 2 ^ 32 \<longrightarrow>
            unat (arch_priv_stack_start t') =
              unat (stack_info_start t') + unat (stack_info_size t')
                + unat (STACK_GUARD_SIZE cfg))"
  using assms
  by (simp add: new_thread_def Let_def new_thread_layout_def new_thread_init_def
        thread_monitor_init_def unat_add3)

text \<open>Scenario B of the spec: 1024 bytes requested, user thread, build \<open>cfg_mpu2\<close>.\<close>

theorem new_thread_user_regions_witness:
  "ASSERT_VALID_PRIO cfg_mpu2 0 0x400 \<and> CONFIG_USERSPACE cfg_mpu2 \<and>
   4 AND K_USER cfg_mpu2 \<noteq> 0 \<and>
   unat (K_THREAD_STACK_BUFFER cfg_mpu2 0x10000) + unat (rounded_stackSize cfg_mpu2 1024)
     + unat (STACK_GUARD_SIZE cfg_mpu2) < 2 ^ 32 \<and>
   (\<exists>t' m'. new_thread cfg_mpu2 aux0 mem0 thread0 0x10000 1024 0x400 1 2 3 0 4 = Inr (t', m') \<and>
      stack_info_start t' = 0x10000 \<and> stack_info_size t' = 2048 \<and>
      arch_priv_stack_start t' = 0x10820 \<and> arch_priv_stack_size t' = 256 \<and>
      unat (arch_priv_stack_start t') = 65536 + 2048 + 32)"
proof -
  have h: "ASSERT_VALID_PRIO cfg_mpu2 0 0x400" by (rule assert_mpu2)
  have u: "CONFIG_USERSPACE cfg_mpu2" by (simp add: cfg_mpu2_def)
  have k: "4 AND K_USER cfg_mpu2 \<noteq> 0" by (simp add: cfg_mpu2_def)
  have w: "K_THREAD_STACK_BUFFER cfg_mpu2 0x10000 = 0x10000" "STACK_GUARD_SIZE cfg_mpu2 = 32"
    "CONFIG_PRIVILEGED_STACK_SIZE cfg_mpu2 = 256"
    by (simp_all add: cfg_mpu2_def)
  show ?thesis
    using h u k new_thread_user_regions [OF h u k, of aux0 mem0 thread0 "0x10000" 1024 1 2 3]
    by (auto simp add: rounded_mpu2_1024 w)
qed

text \<open>
  C2 as stated fails at Scenario B: the call succeeds, the user region recorded is not
  1760 bytes (it is the whole 2048), and user region, guard and privileged stack
  together are larger than the rounded size.
\<close>

theorem new_thread_scenario_B_counterexample:
  "\<not> isl (new_thread cfg_mpu2 aux0 mem0 thread0 0x10000 1024 0x400 1 2 3 0 4) \<and>
   stack_info_size
     (fst (projr (new_thread cfg_mpu2 aux0 mem0 thread0 0x10000 1024 0x400 1 2 3 0 4)))
     \<noteq> 1760 \<and>
   \<not> (unat (stack_info_size
          (fst (projr (new_thread cfg_mpu2 aux0 mem0 thread0 0x10000 1024 0x400 1 2 3 0 4))))
         + unat (STACK_GUARD_SIZE cfg_mpu2)
         + unat (arch_priv_stack_size
          (fst (projr (new_thread cfg_mpu2 aux0 mem0 thread0 0x10000 1024 0x400 1 2 3 0 4))))
       \<le> unat (rounded_stackSize cfg_mpu2 1024))"
  apply (simp add: rounded_mpu2_1024)
  apply (simp add: new_thread_def layout_mpu2_user pInitCtx_mpu2_user Let_def
           new_thread_init_def thread_monitor_init_def assert_mpu2)
  apply (simp add: cfg_mpu2_def)
  done

subsection \<open>The stack of a thread that enters user mode\<close>

text \<open>
  The layout \<open>_new_thread\<close> gives a kernel thread of a userspace build: the region starts
  one guard above the buffer and holds the rounded size plus the privileged stack.
\<close>

lemma new_thread_kernel_layout:
  assumes "ASSERT_VALID_PRIO cfg priority pEntry"
      and "CONFIG_USERSPACE cfg" and "options AND K_USER cfg = 0"
  shows "\<exists>t' m'.
           new_thread cfg aux mem thread stack size0 pEntry a b c priority options
             = Inr (t', m') \<and>
           stack_info_start t' = K_THREAD_STACK_BUFFER cfg stack + STACK_GUARD_SIZE cfg \<and>
           stack_info_size t'
             = rounded_stackSize cfg size0 + CONFIG_PRIVILEGED_STACK_SIZE cfg \<and>
           arch_priv_stack_start t' = 0 \<and> arch_priv_stack_size t' = 0"
  using assms
  by (simp add: new_thread_def Let_def new_thread_layout_def new_thread_init_def
        thread_monitor_init_def)

text \<open>
  C5. \<open>_arch_user_mode_enter\<close> works on the stack object the thread has: the size in
  \<open>stack_info\<close> shrinks by exactly \<open>CONFIG_PRIVILEGED_STACK_SIZE\<close> (as numbers too, when
  the stack is at least that large), the region now starts at the stack object, and the
  privileged stack has the configured size and ends where the stack object plus guard
  plus old size ends. For a thread laid out as \<open>_new_thread\<close> lays out a kernel thread
  (the region starts one guard above the stack object) the privileged stack is exactly
  the top \<open>CONFIG_PRIVILEGED_STACK_SIZE\<close> bytes of the old region. The stack object does
  not change and the only calls made are \<open>configure_mpu_thread\<close> and
  \<open>_arc_userspace_enter\<close>: nothing is allocated.
\<close>

theorem user_mode_enter_repartitions:
  "stack_info_size (fst (arch_user_mode_enter cfg t e p1 p2 p3))
     = stack_info_size t - CONFIG_PRIVILEGED_STACK_SIZE cfg \<and>
   stack_info_start (fst (arch_user_mode_enter cfg t e p1 p2 p3)) = stack_obj t \<and>
   stack_obj (fst (arch_user_mode_enter cfg t e p1 p2 p3)) = stack_obj t \<and>
   arch_priv_stack_size (fst (arch_user_mode_enter cfg t e p1 p2 p3))
     = CONFIG_PRIVILEGED_STACK_SIZE cfg \<and>
   arch_priv_stack_start (fst (arch_user_mode_enter cfg t e p1 p2 p3))
     = stack_obj t + (stack_info_size t - CONFIG_PRIVILEGED_STACK_SIZE cfg)
         + STACK_GUARD_SIZE cfg \<and>
   arch_priv_stack_start (fst (arch_user_mode_enter cfg t e p1 p2 p3))
       + arch_priv_stack_size (fst (arch_user_mode_enter cfg t e p1 p2 p3))
     = stack_obj t + STACK_GUARD_SIZE cfg + stack_info_size t \<and>
   (stack_info_start t = stack_obj t + STACK_GUARD_SIZE cfg \<longrightarrow>
      arch_priv_stack_start (fst (arch_user_mode_enter cfg t e p1 p2 p3))
        = stack_info_start t + stack_info_size t - CONFIG_PRIVILEGED_STACK_SIZE cfg) \<and>
   (CONFIG_PRIVILEGED_STACK_SIZE cfg \<le> stack_info_size t \<longrightarrow>
      unat (stack_info_size (fst (arch_user_mode_enter cfg t e p1 p2 p3)))
        = unat (stack_info_size t) - unat (CONFIG_PRIVILEGED_STACK_SIZE cfg)) \<and>
   snd (arch_user_mode_enter cfg t e p1 p2 p3) =
     [Configure_mpu_thread (fst (arch_user_mode_enter cfg t e p1 p2 p3)),
      Arc_userspace_enter e p1 p2 p3 (stack_obj t)
        (stack_info_size t - CONFIG_PRIVILEGED_STACK_SIZE cfg)]"
  by (simp add: arch_user_mode_enter_def Let_def unat_sub)

theorem user_mode_enter_repartitions_witness:
  "stack_info_start thread_k = stack_obj thread_k + STACK_GUARD_SIZE cfg_mpu2 \<and>
   CONFIG_PRIVILEGED_STACK_SIZE cfg_mpu2 \<le> stack_info_size thread_k \<and>
   stack_info_size (fst (arch_user_mode_enter cfg_mpu2 thread_k 0x400 1 2 3)) = 2048 \<and>
   arch_priv_stack_start (fst (arch_user_mode_enter cfg_mpu2 thread_k 0x400 1 2 3)) = 0x10820 \<and>
   arch_priv_stack_start (fst (arch_user_mode_enter cfg_mpu2 thread_k 0x400 1 2 3))
     = stack_info_start thread_k + stack_info_size thread_k
         - CONFIG_PRIVILEGED_STACK_SIZE cfg_mpu2 \<and>
   unat (stack_info_size (fst (arch_user_mode_enter cfg_mpu2 thread_k 0x400 1 2 3)))
     = 2304 - 256"
proof -
  have a: "stack_info_start thread_k = stack_obj thread_k + STACK_GUARD_SIZE cfg_mpu2"
    by (simp add: thread_k_def thread0_def cfg_mpu2_def)
  have b: "CONFIG_PRIVILEGED_STACK_SIZE cfg_mpu2 \<le> stack_info_size thread_k"
    by (simp add: thread_k_def thread0_def cfg_mpu2_def)
  have w: "stack_info_size thread_k = 2304" "stack_obj thread_k = 0x10000"
    "STACK_GUARD_SIZE cfg_mpu2 = 32" "CONFIG_PRIVILEGED_STACK_SIZE cfg_mpu2 = 256"
    "stack_info_start thread_k = 0x10020"
    by (simp_all add: thread_k_def thread0_def cfg_mpu2_def)
  show ?thesis
    using a b user_mode_enter_repartitions [of cfg_mpu2 thread_k "0x400" 1 2 3]
    by (simp add: w)
qed

subsection \<open>The privilege of a thread\<close>

lemma enter_sets_user:
  "base_user_options (fst (arch_user_mode_enter cfg t e p1 p2 p3)) AND K_USER cfg = K_USER cfg"
  "arch_priv_stack_size (fst (arch_user_mode_enter cfg t e p1 p2 p3))
     = CONFIG_PRIVILEGED_STACK_SIZE cfg"
  by (simp_all add: arch_user_mode_enter_def Let_def word_ao_absorbs)

lemma new_thread_user_options:
  assumes "ASSERT_VALID_PRIO cfg priority pEntry" and "CONFIG_USERSPACE cfg"
  shows "\<exists>t' m'.
           new_thread cfg aux mem thread stack size0 pEntry a b c priority options
             = Inr (t', m') \<and>
           base_user_options t' = options \<and>
           arch_priv_stack_size t'
             = (if options AND K_USER cfg \<noteq> 0 then CONFIG_PRIVILEGED_STACK_SIZE cfg else 0)"
  using assms
  by (simp add: new_thread_def Let_def new_thread_init_def thread_monitor_init_def)

lemma run_ops_keep_user:
  assumes "CONFIG_USERSPACE cfg" and "K_USER cfg \<noteq> 0"
      and "\<forall>op \<in> set ops. op_keeps_user cfg op"
      and "base_user_options t AND K_USER cfg = K_USER cfg"
      and "arch_priv_stack_size t = CONFIG_PRIVILEGED_STACK_SIZE cfg"
  shows "\<exists>t' m'. run_ops cfg aux ops (t, m) = Inr (t', m') \<and>
           base_user_options t' AND K_USER cfg = K_USER cfg \<and>
           arch_priv_stack_size t' = CONFIG_PRIVILEGED_STACK_SIZE cfg"
  using assms(3,4,5)
proof (induction ops arbitrary: t m)
  case Nil
  then show ?case by simp
next
  case (Cons op ops)
  have rest: "\<forall>op \<in> set ops. op_keeps_user cfg op" using Cons.prems(1) by simp
  show ?case
  proof (cases op)
    case (Op_user_mode_enter user_entry p1 p2 p3)
    show ?thesis
      using Cons.IH [OF rest enter_sets_user, of t user_entry p1 p2 p3 m]
      by (simp add: Op_user_mode_enter)
  next
    case (Op_new_thread stack size0 pEntry p1 p2 p3 priority options)
    have ok: "ASSERT_VALID_PRIO cfg priority pEntry"
      and user: "options AND K_USER cfg = K_USER cfg"
      using Cons.prems(1) by (simp_all add: Op_new_thread)
    obtain t1 m1 where
      r: "new_thread cfg aux m t stack size0 pEntry p1 p2 p3 priority options = Inr (t1, m1)"
      and o: "base_user_options t1 = options"
      and p: "arch_priv_stack_size t1
             = (if options AND K_USER cfg \<noteq> 0 then CONFIG_PRIVILEGED_STACK_SIZE cfg else 0)"
      using new_thread_user_options [OF ok assms(1)] by blast
    have u1: "base_user_options t1 AND K_USER cfg = K_USER cfg" using o user by simp
    have p1: "arch_priv_stack_size t1 = CONFIG_PRIVILEGED_STACK_SIZE cfg"
      using p user assms(2) by simp
    show ?thesis
      using Cons.IH [OF rest u1 p1, of m1] by (simp add: Op_new_thread r)
  qed
qed

text \<open>
  C4, as the code has it. \<open>_arch_user_mode_enter\<close> tests nothing: from any thread
  structure it or-s \<open>K_USER\<close> into the options, clearing no bit, and ends in
  \<open>_arc_userspace_enter\<close> at the entry it was given. On a userspace build, after it,
  any sequence of operations of the unit on the structure (further calls of
  \<open>_arch_user_mode_enter\<close>, and calls of \<open>_new_thread\<close> that pass the assertion and
  carry \<open>K_USER\<close>) runs to its end and leaves \<open>K_USER\<close> set and the privileged-stack size
  the configured one. The one way back is \<open>_new_thread\<close> itself: it overwrites the
  options with the ones it is given, so called without \<open>K_USER\<close> it leaves a kernel
  thread with a privileged stack of size 0.
\<close>

theorem user_mode_is_one_way:
  assumes "CONFIG_USERSPACE cfg" and "K_USER cfg \<noteq> 0"
      and "\<forall>op \<in> set ops. op_keeps_user cfg op"
  shows "base_user_options (fst (arch_user_mode_enter cfg t e p1 p2 p3))
           = base_user_options t OR K_USER cfg \<and>
         last (snd (arch_user_mode_enter cfg t e p1 p2 p3)) =
           Arc_userspace_enter e p1 p2 p3 (stack_obj t)
             (stack_info_size t - CONFIG_PRIVILEGED_STACK_SIZE cfg) \<and>
         (\<exists>t' m'.
            run_ops cfg aux ops (fst (arch_user_mode_enter cfg t e p1 p2 p3), m)
              = Inr (t', m') \<and>
            base_user_options t' AND K_USER cfg = K_USER cfg \<and>
            arch_priv_stack_size t' = CONFIG_PRIVILEGED_STACK_SIZE cfg) \<and>
         (ASSERT_VALID_PRIO cfg prio0 pEntry0 \<longrightarrow>
            (\<exists>t2 m2.
               new_thread cfg aux m0 t0 stack0 size0 pEntry0 a0 b0 c0 prio0 options0
                 = Inr (t2, m2) \<and>
               base_user_options t2 = options0 \<and>
               (options0 AND K_USER cfg = 0 \<longrightarrow> arch_priv_stack_size t2 = 0)))"
proof (intro conjI impI)
  show "base_user_options (fst (arch_user_mode_enter cfg t e p1 p2 p3))
           = base_user_options t OR K_USER cfg"
    by (simp add: arch_user_mode_enter_def Let_def)
  show "last (snd (arch_user_mode_enter cfg t e p1 p2 p3)) =
           Arc_userspace_enter e p1 p2 p3 (stack_obj t)
             (stack_info_size t - CONFIG_PRIVILEGED_STACK_SIZE cfg)"
    by (simp add: arch_user_mode_enter_def Let_def)
  show "\<exists>t' m'.
            run_ops cfg aux ops (fst (arch_user_mode_enter cfg t e p1 p2 p3), m)
              = Inr (t', m') \<and>
            base_user_options t' AND K_USER cfg = K_USER cfg \<and>
            arch_priv_stack_size t' = CONFIG_PRIVILEGED_STACK_SIZE cfg"
    by (rule run_ops_keep_user [OF assms enter_sets_user])
next
  assume ok: "ASSERT_VALID_PRIO cfg prio0 pEntry0"
  show "\<exists>t2 m2.
               new_thread cfg aux m0 t0 stack0 size0 pEntry0 a0 b0 c0 prio0 options0
                 = Inr (t2, m2) \<and>
               base_user_options t2 = options0 \<and>
               (options0 AND K_USER cfg = 0 \<longrightarrow> arch_priv_stack_size t2 = 0)"
    using new_thread_user_options [OF ok assms(1), of aux m0 t0 stack0 size0 a0 b0 c0 options0]
    by auto
qed

text \<open>
  On the build \<open>cfg_mpu2\<close>: the kernel thread \<open>thread_k\<close> enters user mode, enters again
  and is then created anew as a user thread, and stays a user thread; created anew
  with options 0 instead, the structure is a kernel thread again.
\<close>

theorem user_mode_is_one_way_witness:
  "CONFIG_USERSPACE cfg_mpu2 \<and> K_USER cfg_mpu2 \<noteq> 0 \<and>
   op_keeps_user cfg_mpu2 (Op_user_mode_enter 0x500 4 5 6) \<and>
   op_keeps_user cfg_mpu2 (Op_new_thread 0x10000 1024 0x400 1 2 3 0 4) \<and>
   ASSERT_VALID_PRIO cfg_mpu2 0 0x400 \<and>
   (0 :: u32) AND K_USER cfg_mpu2 = 0 \<and>
   base_user_options (fst (arch_user_mode_enter cfg_mpu2 thread_k 0x400 1 2 3)) = 4 \<and>
   last (snd (arch_user_mode_enter cfg_mpu2 thread_k 0x400 1 2 3))
     = Arc_userspace_enter 0x400 1 2 3 0x10000 2048 \<and>
   (\<exists>t' m'.
      run_ops cfg_mpu2 aux0
        [Op_user_mode_enter 0x500 4 5 6, Op_new_thread 0x10000 1024 0x400 1 2 3 0 4]
        (fst (arch_user_mode_enter cfg_mpu2 thread_k 0x400 1 2 3), mem0) = Inr (t', m') \<and>
      base_user_options t' AND 4 = 4 \<and> arch_priv_stack_size t' = 256) \<and>
   (\<exists>t2 m2.
      new_thread cfg_mpu2 aux0 mem0 (fst (arch_user_mode_enter cfg_mpu2 thread_k 0x400 1 2 3))
        0x10000 1024 0x400 1 2 3 0 0 = Inr (t2, m2) \<and>
      base_user_options t2 = 0 \<and> arch_priv_stack_size t2 = 0)"
proof -
  have u: "CONFIG_USERSPACE cfg_mpu2" and k: "K_USER cfg_mpu2 \<noteq> 0"
    by (simp_all add: cfg_mpu2_def)
  have w: "K_USER cfg_mpu2 = 4" "CONFIG_PRIVILEGED_STACK_SIZE cfg_mpu2 = 256"
     "stack_obj thread_k = 0x10000" "stack_info_size thread_k = 2304"
     "base_user_options thread_k = 0"
    by (simp_all add: thread_k_def thread0_def cfg_mpu2_def)
  have o: "\<forall>op \<in> set [Op_user_mode_enter 0x500 4 5 6,
                        Op_new_thread 0x10000 1024 0x400 1 2 3 0 4].
             op_keeps_user cfg_mpu2 op"
    by (simp add: assert_mpu2 w)
  have h: "ASSERT_VALID_PRIO cfg_mpu2 0 0x400" by (rule assert_mpu2)
  show ?thesis
    using u k o h
      user_mode_is_one_way
        [OF u k o, where t = thread_k and e = "0x400" and ?p1.0 = 1 and ?p2.0 = 2
           and ?p3.0 = 3 and aux = aux0 and m = mem0 and ?prio0.0 = 0
           and ?pEntry0.0 = "0x400" and ?m0.0 = mem0
           and ?t0.0 = "fst (arch_user_mode_enter cfg_mpu2 thread_k 0x400 1 2 3)"
           and ?stack0.0 = "0x10000" and ?size0.0 = 1024 and ?a0.0 = 1 and ?b0.0 = 2
           and ?c0.0 = 3 and ?options0.0 = 0]
    by (simp add: w)
qed

text \<open>
  C4 as stated fails: a thread that has entered user mode (its \<open>K_USER\<close> bit is set) can
  be given to \<open>_arch_user_mode_enter\<close> again, and the second call is not rejected: it
  ends in \<open>_arc_userspace_enter\<close> like the first, after taking another 256 bytes off the
  stack size (2048 becomes 1792).
\<close>

theorem user_mode_enter_twice_counterexample:
  "base_user_options (fst (arch_user_mode_enter cfg_mpu2 thread_k 0x400 1 2 3))
     AND K_USER cfg_mpu2 \<noteq> 0 \<and>
   last (snd (arch_user_mode_enter cfg_mpu2
                (fst (arch_user_mode_enter cfg_mpu2 thread_k 0x400 1 2 3)) 0x400 1 2 3))
     = Arc_userspace_enter 0x400 1 2 3 0x10000 1792 \<and>
   stack_info_size
     (fst (arch_user_mode_enter cfg_mpu2
             (fst (arch_user_mode_enter cfg_mpu2 thread_k 0x400 1 2 3)) 0x400 1 2 3)) = 1792"
  by (simp add: arch_user_mode_enter_def Let_def thread_k_def thread0_def cfg_mpu2_def)

subsection \<open>The address and the size of the frame\<close>

text \<open>
  C8. Let the stack alignment \<open>STACK_ROUND_DOWN\<close> rounds to be a power of two that
  divides the frame size (4 divides both 24 and 28). Whenever the priority assertion
  passes, the frame address is the top of the region recorded in \<open>stack_info\<close>
  (\<open>start + size\<close>), rounded down to that alignment, minus the frame size; the rounded
  top is the top minus its remainder, the frame address is a multiple of the alignment,
  and the saved stack pointer lies one callee-saved area below it. The frame size is 28
  bytes on a secure build and 24 otherwise, whatever the priority, the options and the
  other switches; the frame has that many bytes in 4-byte cells, and \<open>_new_thread\<close>
  leaves every other cell of memory as it was.
\<close>

theorem new_thread_frame_address:
  assumes "ASSERT_VALID_PRIO cfg priority pEntry"
      and "STACK_ALIGN_SIZE cfg = 2 ^ k" and "k < 32"
      and "2 ^ k dvd unat (sizeof_init_stack_frame cfg)"
  shows "\<exists>t' m'.
           new_thread cfg aux mem thread stack size0 pEntry a b c priority options
             = Inr (t', m') \<and>
           new_thread_pInitCtx cfg stack size0 options
             = STACK_ROUND_DOWN cfg (stack_info_start t' + stack_info_size t')
                 - sizeof_init_stack_frame cfg \<and>
           callee_saved_sp t'
             = new_thread_pInitCtx cfg stack size0 options - callee_saved_stack_t_SIZEOF cfg \<and>
           unat (STACK_ROUND_DOWN cfg (stack_info_start t' + stack_info_size t'))
             = unat (stack_info_start t' + stack_info_size t')
                 - unat (stack_info_start t' + stack_info_size t') mod 2 ^ k \<and>
           unat (new_thread_pInitCtx cfg stack size0 options) mod 2 ^ k = 0 \<and>
           sizeof_init_stack_frame cfg = (if CONFIG_ARC_HAS_SECURE cfg then 28 else 24) \<and>
           4 * length (frame_addrs cfg (new_thread_pInitCtx cfg stack size0 options))
             = unat (sizeof_init_stack_frame cfg) \<and>
           (\<forall>x. x \<notin> set (frame_addrs cfg (new_thread_pInitCtx cfg stack size0 options))
                \<longrightarrow> m' x = mem x)"
proof -
  obtain t' m' where
    r: "new_thread cfg aux mem thread stack size0 pEntry a b c priority options = Inr (t', m')"
    and e: "stackEnd (new_thread_layout cfg stack size0 options)
             = stack_info_start t' + stack_info_size t'"
    and sp: "callee_saved_sp t'
             = new_thread_pInitCtx cfg stack size0 options - callee_saved_stack_t_SIZEOF cfg"
    using new_thread_tcb [OF assms(1)] by blast
  have p: "new_thread_pInitCtx cfg stack size0 options
             = STACK_ROUND_DOWN cfg (stack_info_start t' + stack_info_size t')
                 - sizeof_init_stack_frame cfg"
    by (simp add: new_thread_pInitCtx_def e)
  have rd: "unat (STACK_ROUND_DOWN cfg (stack_info_start t' + stack_info_size t'))
             = unat (stack_info_start t' + stack_info_size t')
                 - unat (stack_info_start t' + stack_info_size t') mod 2 ^ k"
    using assms(2,3) by (simp add: STACK_ROUND_DOWN_def unat_ROUND_DOWN unat_pow2)
  have al: "unat (new_thread_pInitCtx cfg stack size0 options) mod 2 ^ k = 0"
    by (rule pInitCtx_aligned [OF assms(2,3,4)])
  have out: "\<forall>x. x \<notin> set (frame_addrs cfg (new_thread_pInitCtx cfg stack size0 options))
                \<longrightarrow> m' x = mem x"
    using new_thread_mem_outside [OF r] by blast
  show ?thesis
    by (intro exI [of _ t'] exI [of _ m'] conjI r p sp rd al out sizeof_frame
          frame_addrs_length)
qed

theorem new_thread_frame_address_witness:
  "ASSERT_VALID_PRIO cfg_mpu2 0 0x400 \<and> STACK_ALIGN_SIZE cfg_mpu2 = 2 ^ 2 \<and> (2::nat) < 32 \<and>
   (2::nat) ^ 2 dvd unat (sizeof_init_stack_frame cfg_mpu2) \<and>
   (0x10000 :: u32) \<notin> set (frame_addrs cfg_mpu2 0x107E8) \<and>
   (\<exists>t' m'. new_thread cfg_mpu2 aux0 mem0 thread0 0x10000 1024 0x400 1 2 3 0 4 = Inr (t', m') \<and>
      (0x107E8 :: u32)
        = STACK_ROUND_DOWN cfg_mpu2 (stack_info_start t' + stack_info_size t') - 24 \<and>
      callee_saved_sp t' = 0x107A8 \<and>
      unat (0x107E8 :: u32) mod 2 ^ 2 = 0 \<and>
      m' 0x10000 = mem0 0x10000)"
proof -
  have h: "ASSERT_VALID_PRIO cfg_mpu2 0 0x400" by (rule assert_mpu2)
  have a: "STACK_ALIGN_SIZE cfg_mpu2 = 2 ^ 2" by (simp add: cfg_mpu2_def)
  have k: "(2::nat) < 32" by simp
  have d: "(2::nat) ^ 2 dvd unat (sizeof_init_stack_frame cfg_mpu2)"
    by (simp add: offsets_mpu2)
  have f: "(0x10000 :: u32) \<notin> set (frame_addrs cfg_mpu2 0x107E8)"
    by (simp add: frame_addrs_def frame_offsets_def offsets_mpu2) (simp add: cfg_mpu2_def)
  have w: "callee_saved_stack_t_SIZEOF cfg_mpu2 = 64" by (simp add: cfg_mpu2_def)
  show ?thesis
    using h a k d f
      new_thread_frame_address [OF h a k d, of aux0 mem0 thread0 "0x10000" 1024 1 2 3 4]
    by (auto simp add: pInitCtx_mpu2_user offsets_mpu2 w)
qed

subsection \<open>The rounding of the stack size\<close>

lemma unat_max: "unat (max a b) = max (unat a) (unat (b::u32))"
  by (simp add: max_def word_le_nat_alt)

lemma POW2_CEIL_least:
  assumes "unat x \<le> 2 ^ 31"
  shows "\<exists>k<32. POW2_CEIL x = 2 ^ k \<and> unat x \<le> 2 ^ k \<and> (\<forall>j<k. 2 ^ j < unat x)"
proof -
  let ?xs = "map (\<lambda>k. (2::nat) ^ k) [0..<32]"
  have "(2::nat) ^ 31 \<in> set ?xs"
    unfolding set_map set_upt by (rule image_eqI [where x = 31]) simp_all
  then have "find (\<lambda>p. unat x \<le> p) ?xs \<noteq> None"
    using assms unfolding find_None_iff by blast
  then obtain p where f: "find (\<lambda>p. unat x \<le> p) ?xs = Some p" by blast
  then obtain i where i: "i < length ?xs" "unat x \<le> ?xs ! i" "p = ?xs ! i"
      "\<forall>j<i. \<not> unat x \<le> ?xs ! j"
    unfolding find_Some_iff by blast
  have i32: "i < 32" using i(1) by simp
  have p: "p = 2 ^ i" using i(3) i32 by simp
  have "POW2_CEIL x = 2 ^ i" using f p by (simp add: POW2_CEIL_def)
  moreover have "unat x \<le> 2 ^ i" using i(2) i32 by simp
  moreover have "\<forall>j<i. 2 ^ j < unat x"
  proof (intro allI impI)
    fix j assume "j < i"
    then have "\<not> unat x \<le> ?xs ! j" "j < 32" using i(4) i32 by auto
    then show "2 ^ j < unat x" by simp
  qed
  ultimately show ?thesis using i32 by blast
qed

lemma unat_ROUND_UP:
  assumes "a \<noteq> 0" and "unat x + unat a \<le> 2 ^ 32"
  shows "unat (ROUND_UP x a) = (unat x + (unat a - 1)) - (unat x + (unat a - 1)) mod unat a"
proof -
  have a1: "unat (a - 1) = unat a - 1" using assms(1) by (rule unat_minus_one)
  have pos: "0 < unat a" using assms(1) by (simp add: unat_gt_0)
  have "unat x + unat (a - 1) < 2 ^ 32" using assms(2) a1 pos by simp
  then have "unat (x + (a - 1)) = unat x + unat (a - 1)"
    using unat_add_lem [of x "a - 1"] by simp
  then show ?thesis by (simp add: ROUND_UP_def unat_ROUND_DOWN a1)
qed

lemma round_up_nat:
  fixes n d :: nat
  assumes "0 < d"
  shows "d dvd (n + (d - 1)) - (n + (d - 1)) mod d \<and>
         n \<le> (n + (d - 1)) - (n + (d - 1)) mod d \<and>
         (n + (d - 1)) - (n + (d - 1)) mod d < n + d"
proof -
  define m where "m = n + (d - 1)"
  have r: "m mod d < d" using assms by simp
  have dv: "d dvd m - m mod d" by (simp add: minus_mod_eq_mult_div)
  have lo: "n \<le> m - m mod d" using r assms m_def by linarith
  have hi: "m - m mod d < n + d" using assms m_def by linarith
  show ?thesis using dv lo hi unfolding m_def by blast
qed

lemma ROUND_UP_ceiling:
  assumes "a \<noteq> 0" and "unat x + unat a \<le> 2 ^ 32"
  shows "unat a dvd unat (ROUND_UP x a) \<and> unat x \<le> unat (ROUND_UP x a) \<and>
         unat (ROUND_UP x a) < unat x + unat a"
proof -
  have pos: "0 < unat a" using assms(1) by (simp add: unat_gt_0)
  show ?thesis unfolding unat_ROUND_UP [OF assms] by (rule round_up_nat [OF pos])
qed

lemma rounded_mpu3_1000: "rounded_stackSize cfg_mpu3 1000 = 1024"
  by (simp add: rounded_stackSize_def cfg_mpu3_def cfg_mpu2_def ROUND_UP_def ROUND_DOWN_def)

text \<open>
  C7. On a build with \<open>CONFIG_USERSPACE\<close> (the MPU-backed build) the requested size is
  rounded by the policy the constant \<open>CONFIG_ARC_MPU_VER\<close> names, whatever the size and
  the options; the size handed on is the rounded size, plus the privileged stack for a
  kernel thread.
  \<^item> Version 2: the power-of-two ceiling of \<open>STACK_SIZE_ALIGN(stackSize)\<close>. When that is
    at most \<open>2^31\<close> the result is a power of two, at least the requested size and at
    least \<open>STACK_ALIGN\<close>, and no smaller power of two is.
  \<^item> Version 3: \<open>ROUND_UP(stackSize, STACK_ALIGN)\<close>. When the sum does not wrap the
    result is a multiple of \<open>STACK_ALIGN\<close>, at least the requested size and less than
    one \<open>STACK_ALIGN\<close> above it.
\<close>

theorem stack_size_rounding_policy:
  assumes "CONFIG_USERSPACE cfg"
  shows
   "stackSize (new_thread_layout cfg stack size0 options) =
      rounded_stackSize cfg size0 +
        (if options AND K_USER cfg = 0 then CONFIG_PRIVILEGED_STACK_SIZE cfg else 0) \<and>
    (CONFIG_ARC_MPU_VER cfg = 2 \<longrightarrow>
       rounded_stackSize cfg size0 = POW2_CEIL (STACK_SIZE_ALIGN cfg size0) \<and>
       (unat (STACK_SIZE_ALIGN cfg size0) \<le> 2 ^ 31 \<longrightarrow>
          (\<exists>k<32. rounded_stackSize cfg size0 = 2 ^ k \<and>
                  unat size0 \<le> 2 ^ k \<and> unat (STACK_ALIGN cfg) \<le> 2 ^ k \<and>
                  (\<forall>j<k. 2 ^ j < max (unat (STACK_ALIGN cfg)) (unat size0))))) \<and>
    (CONFIG_ARC_MPU_VER cfg = 3 \<longrightarrow>
       rounded_stackSize cfg size0 = ROUND_UP size0 (STACK_ALIGN cfg) \<and>
       (STACK_ALIGN cfg \<noteq> 0 \<and> unat size0 + unat (STACK_ALIGN cfg) \<le> 2 ^ 32 \<longrightarrow>
          unat (STACK_ALIGN cfg) dvd unat (rounded_stackSize cfg size0) \<and>
          unat size0 \<le> unat (rounded_stackSize cfg size0) \<and>
          unat (rounded_stackSize cfg size0) < unat size0 + unat (STACK_ALIGN cfg)))"
proof (intro conjI impI)
  show "stackSize (new_thread_layout cfg stack size0 options) =
      rounded_stackSize cfg size0 +
        (if options AND K_USER cfg = 0 then CONFIG_PRIVILEGED_STACK_SIZE cfg else 0)"
    using assms by (simp add: new_thread_layout_def Let_def)
next
  assume "CONFIG_ARC_MPU_VER cfg = 2"
  then show "rounded_stackSize cfg size0 = POW2_CEIL (STACK_SIZE_ALIGN cfg size0)"
    using assms by (simp add: rounded_stackSize_def)
next
  assume v: "CONFIG_ARC_MPU_VER cfg = 2" and b: "unat (STACK_SIZE_ALIGN cfg size0) \<le> 2 ^ 31"
  have r: "rounded_stackSize cfg size0 = POW2_CEIL (STACK_SIZE_ALIGN cfg size0)"
    using assms v by (simp add: rounded_stackSize_def)
  have m: "unat (STACK_SIZE_ALIGN cfg size0) = max (unat (STACK_ALIGN cfg)) (unat size0)"
    by (simp add: STACK_SIZE_ALIGN_def unat_max)
  obtain k where "k < 32" "POW2_CEIL (STACK_SIZE_ALIGN cfg size0) = 2 ^ k"
      "unat (STACK_SIZE_ALIGN cfg size0) \<le> 2 ^ k"
      "\<forall>j<k. 2 ^ j < unat (STACK_SIZE_ALIGN cfg size0)"
    using POW2_CEIL_least [OF b] by blast
  then show "\<exists>k<32. rounded_stackSize cfg size0 = 2 ^ k \<and>
                  unat size0 \<le> 2 ^ k \<and> unat (STACK_ALIGN cfg) \<le> 2 ^ k \<and>
                  (\<forall>j<k. 2 ^ j < max (unat (STACK_ALIGN cfg)) (unat size0))"
    unfolding r m by (intro exI [of _ k]) simp
next
  assume "CONFIG_ARC_MPU_VER cfg = 3"
  then show "rounded_stackSize cfg size0 = ROUND_UP size0 (STACK_ALIGN cfg)"
    using assms by (simp add: rounded_stackSize_def)
next
  assume v: "CONFIG_ARC_MPU_VER cfg = 3"
     and b: "STACK_ALIGN cfg \<noteq> 0 \<and> unat size0 + unat (STACK_ALIGN cfg) \<le> 2 ^ 32"
  have r: "rounded_stackSize cfg size0 = ROUND_UP size0 (STACK_ALIGN cfg)"
    using assms v by (simp add: rounded_stackSize_def)
  show "unat (STACK_ALIGN cfg) dvd unat (rounded_stackSize cfg size0)"
       "unat size0 \<le> unat (rounded_stackSize cfg size0)"
       "unat (rounded_stackSize cfg size0) < unat size0 + unat (STACK_ALIGN cfg)"
    using ROUND_UP_ceiling [of "STACK_ALIGN cfg" size0] b unfolding r by simp_all
qed

theorem stack_size_rounding_policy_witness:
  "CONFIG_USERSPACE cfg_mpu2 \<and> CONFIG_ARC_MPU_VER cfg_mpu2 = 2 \<and>
   unat (STACK_SIZE_ALIGN cfg_mpu2 1024) \<le> 2 ^ 31 \<and>
   rounded_stackSize cfg_mpu2 1024 = 2048 \<and>
   (\<exists>k<32. (2048 :: u32) = 2 ^ k \<and> (1024 :: nat) \<le> 2 ^ k \<and> (2048 :: nat) \<le> 2 ^ k \<and>
            (\<forall>j<k. 2 ^ j < (2048 :: nat))) \<and>
   CONFIG_USERSPACE cfg_mpu3 \<and> CONFIG_ARC_MPU_VER cfg_mpu3 = 3 \<and>
   STACK_ALIGN cfg_mpu3 \<noteq> 0 \<and> unat (1000 :: u32) + unat (STACK_ALIGN cfg_mpu3) \<le> 2 ^ 32 \<and>
   rounded_stackSize cfg_mpu3 1000 = 1024 \<and>
   (32 :: nat) dvd 1024 \<and> (1000 :: nat) \<le> 1024 \<and> (1024 :: nat) < 1000 + 32"
proof -
  have u2: "CONFIG_USERSPACE cfg_mpu2" and v2: "CONFIG_ARC_MPU_VER cfg_mpu2 = 2"
    and b2: "unat (STACK_SIZE_ALIGN cfg_mpu2 1024) \<le> 2 ^ 31"
    and a2: "STACK_ALIGN cfg_mpu2 = 2048"
    by (simp_all add: cfg_mpu2_def STACK_SIZE_ALIGN_def)
  have u3: "CONFIG_USERSPACE cfg_mpu3" and v3: "CONFIG_ARC_MPU_VER cfg_mpu3 = 3"
    and b3: "STACK_ALIGN cfg_mpu3 \<noteq> 0" "unat (1000 :: u32) + unat (STACK_ALIGN cfg_mpu3) \<le> 2 ^ 32"
    and a3: "STACK_ALIGN cfg_mpu3 = 32"
    by (simp_all add: cfg_mpu3_def cfg_mpu2_def)
  show ?thesis
    using u2 v2 b2 u3 v3 b3 stack_size_rounding_policy [OF u2, of 0 1024 0]
      stack_size_rounding_policy [OF u3, of 0 1000 0]
    by (simp add: rounded_mpu2_1024 rounded_mpu3_1000 a2 a3)
qed


subsection \<open>Two creations with the same inputs\<close>

lemma new_thread_read_frame:
  assumes "new_thread cfg aux mem thread stack size0 pEntry a b c priority options
             = Inr (t', m')"
  shows "read_frame cfg m' (new_thread_pInitCtx cfg stack size0 options) =
     [if CONFIG_USERSPACE cfg \<and> options AND K_USER cfg \<noteq> 0
      then user_thread_entry_wrapper cfg else thread_entry_wrapper cfg] @
     (if CONFIG_ARC_HAS_SECURE cfg then [aux (ARC_V2_SEC_STAT cfg)] else []) @
     [if CONFIG_USERSPACE cfg
      then (if CONFIG_ARC_STACK_CHECKING cfg
            then ARC_V2_STATUS32_SC cfg OR ARC_V2_STATUS32_E_DEF_IRQ_LEVEL cfg
            else ARC_V2_STATUS32_E_DEF_IRQ_LEVEL cfg) OR ARC_V2_STATUS32_US cfg
      else (if CONFIG_ARC_STACK_CHECKING cfg
            then ARC_V2_STATUS32_SC cfg OR ARC_V2_STATUS32_E_DEF_IRQ_LEVEL cfg
            else ARC_V2_STATUS32_E_DEF_IRQ_LEVEL cfg),
      c, b, a, pEntry]"
  using assms
  by (auto simp: new_thread_def Let_def store32_def read_frame_def frame_addrs_def
        frame_offsets_def off_defs split: if_splits)

lemma word_mod_pow2_add:
  fixes b c :: u32
  assumes "k < 32" and "b mod 2 ^ k = 0"
  shows "(b + c) mod 2 ^ k = c mod 2 ^ k"
proof -
  have "unat (b mod 2 ^ k) = 0" using assms(2) by simp
  then have b0: "unat b mod 2 ^ k = 0"
    using assms(1) by (simp add: unat_mod unat_pow2)
  have "unat ((b + c) mod 2 ^ k) = (unat b + unat c) mod 2 ^ 32 mod 2 ^ k"
    using assms(1) by (simp add: unat_mod unat_pow2 unat_word_ariths)
  also have "\<dots> = (unat b + unat c) mod 2 ^ k"
    by (rule mod_mod_cancel [OF pow2_dvd_32 [OF assms(1)]])
  also have "\<dots> = (unat b mod 2 ^ k + unat c) mod 2 ^ k"
    by (rule mod_add_left_eq [symmetric])
  also have "\<dots> = unat (c mod 2 ^ k)"
    using assms(1) by (simp add: b0 unat_mod unat_pow2)
  finally show ?thesis by (rule word_unat_eq_iff [THEN iffD2])
qed

lemma ROUND_DOWN_shift:
  fixes b c :: u32
  assumes "k < 32" and "b mod 2 ^ k = 0"
  shows "ROUND_DOWN (b + c) (2 ^ k) = b + ROUND_DOWN c (2 ^ k)"
  by (simp add: ROUND_DOWN_def word_mod_pow2_add [OF assms])

lemma layout_offsets:
  "stackSize (new_thread_layout cfg s2 size0 options)
     = stackSize (new_thread_layout cfg s1 size0 options) \<and>
   pStackMem (new_thread_layout cfg s2 size0 options) - K_THREAD_STACK_BUFFER cfg s2
     = pStackMem (new_thread_layout cfg s1 size0 options) - K_THREAD_STACK_BUFFER cfg s1 \<and>
   stackEnd (new_thread_layout cfg s2 size0 options) - K_THREAD_STACK_BUFFER cfg s2
     = stackEnd (new_thread_layout cfg s1 size0 options) - K_THREAD_STACK_BUFFER cfg s1"
  by (simp add: new_thread_layout_def Let_def)

lemma pInitCtx_offset:
  assumes "STACK_ALIGN_SIZE cfg = 2 ^ k" and "k < 32"
      and "K_THREAD_STACK_BUFFER cfg s1 mod 2 ^ k = 0"
      and "K_THREAD_STACK_BUFFER cfg s2 mod 2 ^ k = 0"
  shows "new_thread_pInitCtx cfg s2 size0 options - new_thread_pInitCtx cfg s1 size0 options
           = K_THREAD_STACK_BUFFER cfg s2 - K_THREAD_STACK_BUFFER cfg s1"
proof -
  let ?d = "stackEnd (new_thread_layout cfg s1 size0 options) - K_THREAD_STACK_BUFFER cfg s1"
  have e1: "stackEnd (new_thread_layout cfg s1 size0 options) = K_THREAD_STACK_BUFFER cfg s1 + ?d"
    by simp
  have "stackEnd (new_thread_layout cfg s2 size0 options) - K_THREAD_STACK_BUFFER cfg s2 = ?d"
    using layout_offsets [of cfg s2 size0 options s1] by blast
  then have e2: "stackEnd (new_thread_layout cfg s2 size0 options) = K_THREAD_STACK_BUFFER cfg s2 + ?d"
    by (simp only: diff_eq_eq add.commute)
  have p1: "new_thread_pInitCtx cfg s1 size0 options
              = K_THREAD_STACK_BUFFER cfg s1 + ROUND_DOWN ?d (2 ^ k) - sizeof_init_stack_frame cfg"
    unfolding new_thread_pInitCtx_def STACK_ROUND_DOWN_def assms(1)
    by (subst e1) (simp only: ROUND_DOWN_shift [OF assms(2,3)])
  have p2: "new_thread_pInitCtx cfg s2 size0 options
              = K_THREAD_STACK_BUFFER cfg s2 + ROUND_DOWN ?d (2 ^ k) - sizeof_init_stack_frame cfg"
    unfolding new_thread_pInitCtx_def STACK_ROUND_DOWN_def assms(1)
    by (subst e2) (simp only: ROUND_DOWN_shift [OF assms(2,4)])
  show ?thesis unfolding p1 p2 by simp
qed

lemma read_frame_cong:
  assumes "\<forall>x. x \<notin> B \<longrightarrow> m2 x = m1 x" and "set (frame_addrs cfg p) \<inter> B = {}"
  shows "read_frame cfg m2 p = read_frame cfg m1 p"
  unfolding read_frame_def using assms by (intro map_cong) auto

lemma pInitCtx_mpu2_user2: "new_thread_pInitCtx cfg_mpu2 0x20000 1024 4 = 0x207E8"
  by (simp add: new_thread_pInitCtx_def new_thread_layout_def rounded_mpu2_1024 Let_def
        STACK_ROUND_DOWN_def ROUND_DOWN_def off_defs)
     (simp add: cfg_mpu2_def)

text \<open>
  C9. Let \<open>_new_thread\<close> run twice, one call after the other, with the same build,
  auxiliary registers, size, entry, parameters, priority and options, on two stack
  objects \<open>s1\<close> and \<open>s2\<close>. Whenever the priority assertion passes both calls return, and
  \<^item> the frame the second call writes reads field by field as the frame the first call
    wrote;
  \<^item> when the two frames share no cell, the second call leaves the first frame as it
    was;
  \<^item> the regions agree up to the base: same size, same offset of the start and of the
    end from the buffer;
  \<^item> when both buffers are aligned to the power-of-two stack alignment, the two frame
    addresses differ by exactly the difference of the buffers.
\<close>

theorem new_thread_deterministic:
  assumes "ASSERT_VALID_PRIO cfg priority pEntry"
  shows "\<exists>t1 m1 t2 m2.
     new_thread cfg aux mem th1 s1 size0 pEntry a b c priority options = Inr (t1, m1) \<and>
     new_thread cfg aux m1 th2 s2 size0 pEntry a b c priority options = Inr (t2, m2) \<and>
     read_frame cfg m2 (new_thread_pInitCtx cfg s2 size0 options)
       = read_frame cfg m1 (new_thread_pInitCtx cfg s1 size0 options) \<and>
     (set (frame_addrs cfg (new_thread_pInitCtx cfg s1 size0 options))
        \<inter> set (frame_addrs cfg (new_thread_pInitCtx cfg s2 size0 options)) = {} \<longrightarrow>
      read_frame cfg m2 (new_thread_pInitCtx cfg s1 size0 options)
        = read_frame cfg m1 (new_thread_pInitCtx cfg s1 size0 options)) \<and>
     stack_info_size t2 = stack_info_size t1 \<and>
     stack_info_start t2 - K_THREAD_STACK_BUFFER cfg s2
       = stack_info_start t1 - K_THREAD_STACK_BUFFER cfg s1 \<and>
     stackEnd (new_thread_layout cfg s2 size0 options) - K_THREAD_STACK_BUFFER cfg s2
       = stackEnd (new_thread_layout cfg s1 size0 options) - K_THREAD_STACK_BUFFER cfg s1 \<and>
     (STACK_ALIGN_SIZE cfg = 2 ^ k \<and> k < 32 \<and>
      K_THREAD_STACK_BUFFER cfg s1 mod 2 ^ k = 0 \<and>
      K_THREAD_STACK_BUFFER cfg s2 mod 2 ^ k = 0 \<longrightarrow>
      new_thread_pInitCtx cfg s2 size0 options - new_thread_pInitCtx cfg s1 size0 options
        = K_THREAD_STACK_BUFFER cfg s2 - K_THREAD_STACK_BUFFER cfg s1)"
proof -
  obtain t1 m1 where
    r1: "new_thread cfg aux mem th1 s1 size0 pEntry a b c priority options = Inr (t1, m1)"
    and st1: "stack_info_start t1 = pStackMem (new_thread_layout cfg s1 size0 options)"
    and sz1: "stack_info_size t1 = stackSize (new_thread_layout cfg s1 size0 options)"
    using new_thread_tcb [OF assms, of aux mem th1 s1 size0 a b c options] by blast
  obtain t2 m2 where
    r2: "new_thread cfg aux m1 th2 s2 size0 pEntry a b c priority options = Inr (t2, m2)"
    and st2: "stack_info_start t2 = pStackMem (new_thread_layout cfg s2 size0 options)"
    and sz2: "stack_info_size t2 = stackSize (new_thread_layout cfg s2 size0 options)"
    using new_thread_tcb [OF assms, of aux m1 th2 s2 size0 a b c options] by blast
  have fr: "read_frame cfg m2 (new_thread_pInitCtx cfg s2 size0 options)
       = read_frame cfg m1 (new_thread_pInitCtx cfg s1 size0 options)"
    by (simp only: new_thread_read_frame [OF r1] new_thread_read_frame [OF r2])
  have keep: "set (frame_addrs cfg (new_thread_pInitCtx cfg s1 size0 options))
        \<inter> set (frame_addrs cfg (new_thread_pInitCtx cfg s2 size0 options)) = {} \<longrightarrow>
      read_frame cfg m2 (new_thread_pInitCtx cfg s1 size0 options)
        = read_frame cfg m1 (new_thread_pInitCtx cfg s1 size0 options)"
  proof
    assume d: "set (frame_addrs cfg (new_thread_pInitCtx cfg s1 size0 options))
        \<inter> set (frame_addrs cfg (new_thread_pInitCtx cfg s2 size0 options)) = {}"
    have "\<forall>x. x \<notin> set (frame_addrs cfg (new_thread_pInitCtx cfg s2 size0 options))
            \<longrightarrow> m2 x = m1 x"
      using new_thread_mem_outside [OF r2] by blast
    then show "read_frame cfg m2 (new_thread_pInitCtx cfg s1 size0 options)
        = read_frame cfg m1 (new_thread_pInitCtx cfg s1 size0 options)"
      using d by (rule read_frame_cong)
  qed
  have sz: "stack_info_size t2 = stack_info_size t1"
    using layout_offsets [of cfg s2 size0 options s1] by (simp add: sz1 sz2)
  have st: "stack_info_start t2 - K_THREAD_STACK_BUFFER cfg s2
       = stack_info_start t1 - K_THREAD_STACK_BUFFER cfg s1"
    using layout_offsets [of cfg s2 size0 options s1] by (simp add: st1 st2)
  have en: "stackEnd (new_thread_layout cfg s2 size0 options) - K_THREAD_STACK_BUFFER cfg s2
       = stackEnd (new_thread_layout cfg s1 size0 options) - K_THREAD_STACK_BUFFER cfg s1"
    using layout_offsets [of cfg s2 size0 options s1] by simp
  have off: "STACK_ALIGN_SIZE cfg = 2 ^ k \<and> k < 32 \<and>
      K_THREAD_STACK_BUFFER cfg s1 mod 2 ^ k = 0 \<and>
      K_THREAD_STACK_BUFFER cfg s2 mod 2 ^ k = 0 \<longrightarrow>
      new_thread_pInitCtx cfg s2 size0 options - new_thread_pInitCtx cfg s1 size0 options
        = K_THREAD_STACK_BUFFER cfg s2 - K_THREAD_STACK_BUFFER cfg s1"
    by (intro impI, elim conjE) (rule pInitCtx_offset)
  show ?thesis
    by (intro exI [of _ t1] exI [of _ m1] exI [of _ t2] exI [of _ m2] conjI r1 r2 fr keep
          sz st en off)
qed

theorem new_thread_deterministic_witness:
  "ASSERT_VALID_PRIO cfg_mpu2 0 0x400 \<and>
   set (frame_addrs cfg_mpu2 0x107E8) \<inter> set (frame_addrs cfg_mpu2 0x207E8) = {} \<and>
   STACK_ALIGN_SIZE cfg_mpu2 = 2 ^ 2 \<and> (2::nat) < 32 \<and>
   K_THREAD_STACK_BUFFER cfg_mpu2 0x10000 mod 2 ^ 2 = 0 \<and>
   K_THREAD_STACK_BUFFER cfg_mpu2 0x20000 mod 2 ^ 2 = 0 \<and>
   (\<exists>t1 m1 t2 m2.
     new_thread cfg_mpu2 aux0 mem0 thread0 0x10000 1024 0x400 1 2 3 0 4 = Inr (t1, m1) \<and>
     new_thread cfg_mpu2 aux0 m1 thread0 0x20000 1024 0x400 1 2 3 0 4 = Inr (t2, m2) \<and>
     read_frame cfg_mpu2 m2 0x207E8 = read_frame cfg_mpu2 m1 0x107E8 \<and>
     read_frame cfg_mpu2 m2 0x107E8 = read_frame cfg_mpu2 m1 0x107E8 \<and>
     stack_info_size t2 = stack_info_size t1 \<and>
     stack_info_start t2 - 0x20000 = stack_info_start t1 - 0x10000 \<and>
     (0x207E8 :: u32) - 0x107E8 = 0x20000 - 0x10000)"
proof -
  have h: "ASSERT_VALID_PRIO cfg_mpu2 0 0x400" by (rule assert_mpu2)
  have d: "set (frame_addrs cfg_mpu2 0x107E8) \<inter> set (frame_addrs cfg_mpu2 0x207E8) = {}"
    by (simp add: frame_addrs_def frame_offsets_def offsets_mpu2) (simp add: cfg_mpu2_def)
  have a: "STACK_ALIGN_SIZE cfg_mpu2 = 2 ^ 2" "(2::nat) < 32"
     "K_THREAD_STACK_BUFFER cfg_mpu2 0x10000 mod 2 ^ 2 = 0"
     "K_THREAD_STACK_BUFFER cfg_mpu2 0x20000 mod 2 ^ 2 = 0"
    by (simp_all add: cfg_mpu2_def)
  have w: "K_THREAD_STACK_BUFFER cfg_mpu2 0x10000 = 0x10000"
     "K_THREAD_STACK_BUFFER cfg_mpu2 0x20000 = 0x20000"
    by (simp_all add: cfg_mpu2_def)
  show ?thesis
    using h d a
      new_thread_deterministic
        [OF h, of aux0 mem0 thread0 "0x10000" 1024 1 2 3 4 thread0 "0x20000" 2]
    apply (simp only: pInitCtx_mpu2_user pInitCtx_mpu2_user2 w)
    apply blast
    done
qed


end
